theory Spec2Isabelle
  imports Complex_Main
begin

section \<open>Arrays, errors and the library primitives the calculator calls\<close>

text \<open>
  A one-dimensional numpy array is the list of its values, as reals. Float arithmetic is
  exact: rounding, overflow to \<open>inf\<close> and \<open>nan\<close> of IEEE doubles are outside this model,
  so every equation below is an equation of the real numbers the floats approximate.
  What the program raises is in the model, and so is the one place where the element
  type of the arrays changes the number computed: the scalar arithmetic of \<open>bernoulli\<close>,
  which wraps modulo \<open>2^64\<close> when numpy stays in \<open>int64\<close>.
\<close>

type_synonym array = "real list"

text \<open>
  The source raises \<open>ValueError\<close> with four different messages and lets the exceptions
  of the interpreter and of numpy escape; each is one constructor:
  \<^item> \<open>InvalidUniverse\<close>: ValueError "Every elementary event should be different";
  \<^item> \<open>InvalidDistribution\<close>: ValueError "All probabilities should be in [0,1] interval
    and their sum cannot be zero";
  \<^item> \<open>UnnormalizedDistribution\<close>: ValueError "Sum of all probabilities values should be
    equal to 1";
  \<^item> \<open>EmptyIndexList\<close>: ValueError "At least one event index must be provided";
  \<^item> \<open>LengthMismatch\<close>: the ValueError of \<open>np.dot\<close> on vectors of different length;
  \<^item> \<open>IndexError\<close>: a list or array index out of range;
  \<^item> \<open>CombError\<close>: the ValueError of \<open>math.comb\<close> on a negative argument;
  \<^item> \<open>OverflowError\<close>: a Python int too large for the numpy scalar it is multiplied
    with ("int too large to convert to float", or out of bounds for \<open>int64\<close>);
  \<^item> \<open>NegativePower\<close>: the ValueError of numpy on an integer raised to a negative
    integer power;
  \<^item> \<open>NonFinite\<close>: not an exception: the float result is \<open>inf\<close> or \<open>nan\<close> (a zero
    base under a negative exponent), which no real number stands for;
  \<^item> \<open>FuzzError\<close>: any exception escaping from a scikit-fuzzy operator.
\<close>

datatype error =
    InvalidUniverse
  | InvalidDistribution
  | UnnormalizedDistribution
  | EmptyIndexList
  | LengthMismatch
  | IndexError
  | CombError
  | OverflowError
  | NegativePower
  | NonFinite
  | FuzzError

text \<open>\<open>np.unique\<close>: the distinct elements, sorted ascending.\<close>

definition np_unique :: "array \<Rightarrow> array" where
  "np_unique xs = sort (remdups xs)"

text \<open>
  \<open>np.isclose(a, b)\<close> with its default tolerances \<open>rtol = 1e-05\<close>, \<open>atol = 1e-08\<close>:
  \<open>|a - b| <= atol + rtol * |b|\<close>.
\<close>

definition np_isclose :: "real \<Rightarrow> real \<Rightarrow> bool" where
  "np_isclose a b \<longleftrightarrow> \<bar>a - b\<bar> \<le> 1 / 10 ^ 8 + 1 / 10 ^ 5 * \<bar>b\<bar>"

text \<open>
  \<open>np.dot\<close> on two one-dimensional arrays: the inner product when the lengths agree,
  a ValueError (shapes not aligned) otherwise.
\<close>

definition np_dot :: "array \<Rightarrow> array \<Rightarrow> error + real" where
  "np_dot a b =
     (if length a = length b then Inr (sum_list (map2 (*) a b)) else Inl LengthMismatch)"

text \<open>
  \<open>np.trim_zeros\<close> with its default \<open>trim='fb'\<close>: \<open>first\<close> counts the leading zeros,
  \<open>last\<close> is the length less the trailing zeros, the result is \<open>filt[first:last]\<close>
  (empty when \<open>first >= last\<close>). Zeros between two non-zero elements stay.
\<close>

definition np_trim_zeros :: "array \<Rightarrow> array" where
  "np_trim_zeros filt =
     (let first = length (takeWhile (\<lambda>i. i = 0) filt);
          last = length filt - length (takeWhile (\<lambda>i. i = 0) (rev filt))
      in drop first (take last filt))"

text \<open>\<open>np.nonzero\<close> on a boolean vector: the positions holding True, ascending.\<close>

definition np_nonzero :: "bool list \<Rightarrow> nat list" where
  "np_nonzero bs = filter (\<lambda>i. bs ! i) [0..<length bs]"

text \<open>
  Indexing an array by an array of non-negative positions, \<open>a[indices]\<close>: IndexError
  as soon as one position is beyond the array.
\<close>

definition np_take :: "array \<Rightarrow> nat list \<Rightarrow> error + array" where
  "np_take a indices =
     (if list_all (\<lambda>i. i < length a) indices then Inr (map (\<lambda>i. a ! i) indices)
      else Inl IndexError)"

text \<open>\<open>skfuzzy.fuzzy_not\<close>: the complement \<open>1. - mfx\<close>, element by element.\<close>

definition fuzzy_not :: "array \<Rightarrow> array" where
  "fuzzy_not mfx = map (\<lambda>m. 1 - m) mfx"

text \<open>
  \<open>skfuzzy.fuzzy_add\<close> and \<open>skfuzzy.fuzzy_and\<close> take two universes with their membership
  vectors and return a universe and a membership vector, or raise. The calculator is
  parametric in them: they are arguments of \<open>events_sum\<close> and \<open>events_intersection\<close>.
\<close>

type_synonym fuzzy_op = "array \<Rightarrow> array \<Rightarrow> array \<Rightarrow> array \<Rightarrow> error + array \<times> array"

text \<open>\<open>math.comb(n, k)\<close>: ValueError on a negative argument, the binomial otherwise.\<close>

definition math_comb :: "int \<Rightarrow> int \<Rightarrow> error + nat" where
  "math_comb n k = (if n < 0 \<or> k < 0 then Inl CombError else Inr (nat n choose nat k))"

text \<open>
  \<open>x ** k\<close> for an \<open>np.float64\<close> \<open>x\<close> and a Python int \<open>k\<close>: a negative exponent
  divides, and dividing by zero gives \<open>inf\<close> (no exception).
\<close>

definition float_pow :: "real \<Rightarrow> int \<Rightarrow> error + real" where
  "float_pow x k =
     (if 0 \<le> k then Inr (x ^ nat k)
      else if x = 0 then Inl NonFinite
      else Inr (1 / x ^ nat (- k)))"

text \<open>
  The scalar that \<open>np.dot\<close> returns is an \<open>np.int64\<close> when both arrays are integer
  arrays and an \<open>np.float64\<close> otherwise. \<open>int64\<close> arithmetic wraps: \<open>wrap64\<close> is the
  signed value of an integer modulo \<open>2^64\<close>.
\<close>

datatype dtype = Int64 | Float64

datatype scalar = I int | F real

definition wrap64 :: "int \<Rightarrow> int" where
  "wrap64 v = (v + 2 ^ 63) mod 2 ^ 64 - 2 ^ 63"

text \<open>
  The arrays of this model are their values, so the dtype of a dot product is given
  beside its value: as an \<open>int64\<close> it is the integer value, wrapped.
\<close>

definition dot_scalar :: "dtype \<Rightarrow> real \<Rightarrow> scalar" where
  "dot_scalar dt v = (case dt of Int64 \<Rightarrow> I (wrap64 \<lfloor>v\<rfloor>) | Float64 \<Rightarrow> F v)"

text \<open>
  \<open>s ** k\<close> for a numpy scalar and a Python int: the result has the scalar's type;
  an \<open>int64\<close> power wraps, and a negative exponent on an \<open>int64\<close> raises ValueError.
\<close>

definition scalar_pow :: "scalar \<Rightarrow> int \<Rightarrow> error + scalar" where
  "scalar_pow s k =
     (case s of
        F x \<Rightarrow> (case float_pow x k of Inl e \<Rightarrow> Inl e | Inr y \<Rightarrow> Inr (F y))
      | I v \<Rightarrow> (if k < 0 then Inl NegativePower else Inr (I (wrap64 (v ^ nat k)))))"

text \<open>
  \<open>c * s\<close> for a Python int \<open>c\<close> (not negative) and a numpy scalar: the int is
  converted to the scalar's type first. To a double: rounding to nearest, so
  OverflowError from \<open>2^1024 - 2^970\<close> on (halfway between the largest double and
  \<open>2^1024\<close>). To an \<open>int64\<close> (numpy 2): OverflowError from \<open>2^63\<close> on; the product wraps.
\<close>

definition pyint_times :: "nat \<Rightarrow> scalar \<Rightarrow> error + scalar" where
  "pyint_times c s =
     (case s of
        F x \<Rightarrow> (if 2 ^ 1024 - 2 ^ 970 \<le> int c then Inl OverflowError else Inr (F (real c * x)))
      | I v \<Rightarrow> (if 2 ^ 63 \<le> int c then Inl OverflowError else Inr (I (wrap64 (int c * v)))))"

text \<open>\<open>s * y\<close> for a numpy scalar and an \<open>np.float64\<close>: an \<open>np.float64\<close>.\<close>

definition scalar_times_float :: "scalar \<Rightarrow> real \<Rightarrow> real" where
  "scalar_times_float s y = (case s of F x \<Rightarrow> x * y | I v \<Rightarrow> real_of_int v * y)"

text \<open>
  Python's \<open>xs[i]\<close> on a list: a negative index counts from the end, and an index
  outside \<open>-len(xs) .. len(xs) - 1\<close> raises IndexError.
\<close>

definition py_index :: "'a list \<Rightarrow> int \<Rightarrow> error + 'a" where
  "py_index xs i =
     (let n = int (length xs); j = (if i < 0 then n + i else i)
      in if 0 \<le> j \<and> j < n then Inr (xs ! nat j) else Inl IndexError)"

section \<open>utils.py\<close>

definition universe_diverse :: "array \<Rightarrow> bool" where
  "universe_diverse universe \<longleftrightarrow> length universe = length (np_unique universe)"

definition probabilities_valid :: "array \<Rightarrow> bool" where
  "probabilities_valid probabilities \<longleftrightarrow>
     list_all (\<lambda>p. 0 \<le> p) probabilities
     \<and> list_all (\<lambda>p. p \<le> 1) probabilities
     \<and> \<not> np_isclose (sum_list probabilities) 0"

definition probabilities_normalized :: "array \<Rightarrow> bool" where
  "probabilities_normalized probabilities \<longleftrightarrow> np_isclose (sum_list probabilities) 1"

definition normalize_probabilities :: "array \<Rightarrow> array" where
  "normalize_probabilities probabilities =
     (let total = sum_list probabilities in map (\<lambda>p. p / total) probabilities)"

section \<open>fuzzy_calculator.py: the calculator and its state\<close>

text \<open>
  The fields \<open>_probabilities\<close>, \<open>_universe\<close>, \<open>_events\<close> and \<open>_combined_events\<close> of
  \<open>FuzzyProbabilitiesCalculator\<close>. Every method takes the calculator and returns its
  result together with the calculator it leaves behind.
\<close>

record calculator =
  probabilities :: array
  universe :: array
  events :: "array list"
  combined_events :: "array list"

text \<open>
  \<open>__init__\<close>. The two arrays are checked one by one; nothing compares their lengths.
\<close>

definition init :: "array \<Rightarrow> array \<Rightarrow> bool \<Rightarrow> error + calculator" where
  "init universe' probabilities' normalize' =
     (if \<not> universe_diverse universe' then Inl InvalidUniverse
      else if \<not> probabilities_valid probabilities' then Inl InvalidDistribution
      else if \<not> probabilities_normalized probabilities' then
        (if \<not> normalize' then Inl UnnormalizedDistribution
         else Inr \<lparr>probabilities = normalize_probabilities probabilities',
                   universe = universe', events = [], combined_events = []\<rparr>)
      else Inr \<lparr>probabilities = probabilities',
                universe = universe', events = [], combined_events = []\<rparr>)"

text \<open>
  \<open>_normalized_event\<close>: \<open>np.pad(event, (0, size_diff), constant_values=0.0)\<close> appends
  \<open>size_diff\<close> zeros; \<open>event[:size_diff]\<close> with a negative \<open>size_diff\<close> keeps the first
  \<open>len(event) + size_diff\<close> elements.
\<close>

definition normalized_event :: "calculator \<Rightarrow> array \<Rightarrow> array" where
  "normalized_event self event =
     (let size_diff = int (length (universe self)) - int (length event)
      in if size_diff > 0 then event @ replicate (nat size_diff) 0
         else if size_diff < 0 then take (nat (int (length event) + size_diff)) event
         else event)"

definition add_event :: "calculator \<Rightarrow> array \<Rightarrow> int \<times> calculator" where
  "add_event self membership =
     (let normalized = normalized_event self membership;
          self' = self\<lparr>events := events self @ [normalized]\<rparr>
      in (int (length (events self')) - 1, self'))"

text \<open>
  The comprehension \<open>[self._events[idx] for idx in events_indices if idx < len(self._events)]\<close>:
  the guard tests the upper bound only, then \<open>self._events[idx]\<close> is Python indexing.
\<close>

fun select_events :: "array list \<Rightarrow> int list \<Rightarrow> error + array list" where
  "select_events evs [] = Inr []"
| "select_events evs (idx # rest) =
     (if idx < int (length evs) then
        (case py_index evs idx of
           Inl e \<Rightarrow> Inl e
         | Inr ev \<Rightarrow>
             (case select_events evs rest of Inl e \<Rightarrow> Inl e | Inr sel \<Rightarrow> Inr (ev # sel)))
      else select_events evs rest)"

text \<open>
  The loop \<open>for event in selected_events[1:]: result = op(universe, result, universe, event)[1]\<close>.
\<close>

fun fold_events :: "fuzzy_op \<Rightarrow> array \<Rightarrow> array \<Rightarrow> array list \<Rightarrow> error + array" where
  "fold_events op u result [] = Inr result"
| "fold_events op u result (event # rest) =
     (case op u result u event of
        Inl e \<Rightarrow> Inl e
      | Inr (z, mfz) \<Rightarrow> fold_events op u mfz rest)"

definition events_sum :: "fuzzy_op \<Rightarrow> calculator \<Rightarrow> int list \<Rightarrow> (error + array) \<times> calculator" where
  "events_sum fuzzy_add self events_indices =
     (if events_indices = [] then (Inl EmptyIndexList, self)
      else
        (case select_events (events self) events_indices of
           Inl e \<Rightarrow> (Inl e, self)
         | Inr selected_events \<Rightarrow>
             if length selected_events = 1 then (py_index selected_events 0, self)
             else
               (case py_index selected_events 0 of
                  Inl e \<Rightarrow> (Inl e, self)
                | Inr result \<Rightarrow>
                    (fold_events fuzzy_add (universe self) result (drop 1 selected_events),
                     self))))"

definition events_intersection ::
  "fuzzy_op \<Rightarrow> calculator \<Rightarrow> int list \<Rightarrow> (error + array) \<times> calculator" where
  "events_intersection fuzzy_and self events_indices =
     (if events_indices = [] then (Inl EmptyIndexList, self)
      else
        (case select_events (events self) events_indices of
           Inl e \<Rightarrow> (Inl e, self)
         | Inr selected_events \<Rightarrow>
             if length selected_events = 1 then (py_index selected_events 0, self)
             else
               (case py_index selected_events 0 of
                  Inl e \<Rightarrow> (Inl e, self)
                | Inr result \<Rightarrow>
                    (fold_events fuzzy_and (universe self) result (drop 1 selected_events),
                     self))))"

text \<open>
  \<open>probability\<close>: \<open>normalized\<close> is computed and not used; \<open>np.dot\<close> receives \<open>event\<close>.
\<close>

definition probability :: "calculator \<Rightarrow> array \<Rightarrow> (error + real) \<times> calculator" where
  "probability self event =
     (let normalized = normalized_event self event
      in (np_dot event (probabilities self), self))"

text \<open>
  The loop of \<open>fuzzy_probability\<close>: for each alpha, the positions of \<open>normalized >= a\<close>,
  the distribution at those positions, and its sum.
\<close>

fun alpha_probs :: "array \<Rightarrow> array \<Rightarrow> array \<Rightarrow> error + array" where
  "alpha_probs ps normalized [] = Inr []"
| "alpha_probs ps normalized (a # alphas) =
     (let indices = np_nonzero (map (\<lambda>m. a \<le> m) normalized)
      in case np_take ps indices of
           Inl e \<Rightarrow> Inl e
         | Inr chosen \<Rightarrow>
             (case alpha_probs ps normalized alphas of
                Inl e \<Rightarrow> Inl e
              | Inr probs \<Rightarrow> Inr (sum_list chosen # probs)))"

definition fuzzy_probability ::
  "calculator \<Rightarrow> array \<Rightarrow> (error + array \<times> array) \<times> calculator" where
  "fuzzy_probability self event =
     (let normalized = normalized_event self event;
          alphas = np_trim_zeros (np_unique normalized)
      in (case alpha_probs (probabilities self) normalized alphas of
            Inl e \<Rightarrow> Inl e
          | Inr probs \<Rightarrow> Inr (probs, alphas),
          self))"

text \<open>
  \<open>bernoulli\<close>. \<open>dt\<close> is the dtype of \<open>success_prob\<close>: \<open>Int64\<close> when the event and the
  stored distribution are both integer arrays, \<open>Float64\<close> otherwise. \<open>failure_prob\<close> is
  always an \<open>np.float64\<close>, since \<open>fuzzy_not\<close> returns a float array. The last line is
  evaluated from the left: \<open>math.comb\<close>, the power of \<open>success_prob\<close>, their product,
  the power of \<open>failure_prob\<close>, the product.
\<close>

definition bernoulli ::
  "dtype \<Rightarrow> calculator \<Rightarrow> array \<Rightarrow> int \<Rightarrow> int \<Rightarrow> (error + real) \<times> calculator" where
  "bernoulli dt self event success failure =
     (let normalized = normalized_event self event;
          (success_prob, self1) = probability self normalized
      in case success_prob of
           Inl e \<Rightarrow> (Inl e, self1)
         | Inr p \<Rightarrow>
             (let (failure_prob, self2) = probability self1 (fuzzy_not normalized)
              in case failure_prob of
                   Inl e \<Rightarrow> (Inl e, self2)
                 | Inr q \<Rightarrow>
                     (case math_comb (success + failure) success of
                        Inl e \<Rightarrow> (Inl e, self2)
                      | Inr c \<Rightarrow>
                          (case scalar_pow (dot_scalar dt p) success of
                             Inl e \<Rightarrow> (Inl e, self2)
                           | Inr ps \<Rightarrow>
                               (case pyint_times c ps of
                                  Inl e \<Rightarrow> (Inl e, self2)
                                | Inr cps \<Rightarrow>
                                    (case float_pow q failure of
                                       Inl e \<Rightarrow> (Inl e, self2)
                                     | Inr qf \<Rightarrow>
                                         (Inr (scalar_times_float cps qf), self2)))))))"

section \<open>Example calculators\<close>

text \<open>
  The universe \<open>[0, 1, 2]\<close> with the distribution \<open>[0.3, 0.4, 0.3]\<close> of the docstring
  examples, and the same calculator after \<open>add_event([0.2, 0.5, 0.3])\<close>.
\<close>

definition doc_calc :: calculator where
  "doc_calc = \<lparr>probabilities = [3 / 10, 4 / 10, 3 / 10], universe = [0, 1, 2],
               events = [], combined_events = []\<rparr>"

definition doc_calc1 :: calculator where
  "doc_calc1 = doc_calc\<lparr>events := [[2 / 10, 5 / 10, 3 / 10]]\<rparr>"

text \<open>
  The same universe with the two-element distribution \<open>[0.5, 0.5]\<close>, and with the
  integer distribution \<open>[1, 0, 0]\<close>: the constructor accepts both.
\<close>

definition short_calc :: calculator where
  "short_calc = \<lparr>probabilities = [1 / 2, 1 / 2], universe = [0, 1, 2],
                 events = [], combined_events = []\<rparr>"

definition int_calc :: calculator where
  "int_calc = \<lparr>probabilities = [1, 0, 0], universe = [0, 1, 2],
               events = [], combined_events = []\<rparr>"

section \<open>Facts about the primitives\<close>

lemma length_normalized_event: "length (normalized_event self event) = length (universe self)"
  by (auto simp: normalized_event_def Let_def)

lemma normalized_event_same_length:
  "length event = length (universe self) \<Longrightarrow> normalized_event self event = event"
  by (simp add: normalized_event_def)

lemma sum_list_map2_nth:
  "length a = length b \<Longrightarrow> sum_list (map2 f a b) = (\<Sum>i<length a. f (a ! i) (b ! i))"
proof (induction a arbitrary: b)
  case Nil
  then show ?case by simp
next
  case (Cons x xs)
  then obtain y ys where b: "b = y # ys" by (cases b) auto
  with Cons.prems have len: "length xs = length ys" by simp
  have "(\<Sum>i<Suc (length xs). f ((x # xs) ! i) ((y # ys) ! i))
          = f x y + (\<Sum>i<length xs. f (xs ! i) (ys ! i))"
    by (simp add: sum.lessThan_Suc_shift del: sum.lessThan_Suc)
  with Cons.IH [OF len] b show ?case by simp
qed

lemma init_doc_calc: "init [0, 1, 2] [3 / 10, 4 / 10, 3 / 10] False = Inr doc_calc"
  by (simp add: init_def universe_diverse_def np_unique_def probabilities_valid_def
      probabilities_normalized_def np_isclose_def doc_calc_def)

text \<open>
  The constructor accepts a distribution shorter than the universe: nothing enforces the
  length N that the docstring gives to both arrays.
\<close>

lemma init_short_calc: "init [0, 1, 2] [1 / 2, 1 / 2] False = Inr short_calc"
  by (simp add: init_def universe_diverse_def np_unique_def probabilities_valid_def
      probabilities_normalized_def np_isclose_def short_calc_def)

lemma init_int_calc: "init [0, 1, 2] [1, 0, 0] False = Inr int_calc"
  by (simp add: init_def universe_diverse_def np_unique_def probabilities_valid_def
      probabilities_normalized_def np_isclose_def int_calc_def)

lemma add_event_doc_calc: "add_event doc_calc [2 / 10, 5 / 10, 3 / 10] = (0, doc_calc1)"
  by (simp add: add_event_def normalized_event_def doc_calc_def doc_calc1_def)

section \<open>Probability\<close>

text \<open>
  C1, as the code has it. On a calculator whose stored distribution has the universe's
  length N, and for an event of length N, \<open>probability\<close> returns the dot product of the
  event as passed with the stored distribution: the sum over \<open>i < N\<close> of
  \<open>event[i] * distribution[i]\<close>.
\<close>

theorem probability_is_dot_product:
  assumes "length (probabilities self) = length (universe self)"
    and "length event = length (universe self)"
  shows "fst (probability self event)
           = Inr (\<Sum>i<length (universe self). event ! i * probabilities self ! i)"
  using assms by (simp add: probability_def np_dot_def sum_list_map2_nth)

theorem probability_is_dot_product_witness:
  "fst (probability doc_calc [2 / 10, 5 / 10, 3 / 10]) = Inr (35 / 100)"
  using probability_is_dot_product [of doc_calc "[2 / 10, 5 / 10, 3 / 10]"]
  by (simp add: doc_calc_def lessThan_Suc numeral_3_eq_3)

text \<open>
  C1, as the claim states it, fails on the calculator that the constructor builds from
  the universe \<open>[0, 1, 2]\<close> and the distribution \<open>[0.5, 0.5]\<close>: the event
  \<open>[1, 1, 1]\<close> has the universe's length and \<open>np.dot\<close> refuses it.
\<close>

theorem probability_short_distribution:
  "init [0, 1, 2] [1 / 2, 1 / 2] False = Inr short_calc
   \<and> length [1, 1, 1 :: real] = length (universe short_calc)
   \<and> fst (probability short_calc [1, 1, 1]) = Inl LengthMismatch"
  by (simp add: init_short_calc) (simp add: probability_def np_dot_def short_calc_def)

text \<open>
  C2. Of the four operations that take a raw membership array, \<open>probability\<close> does
  not tolerate a length other than the universe's. It pads \<open>[0.2, 0.5]\<close> to the
  universe's three points and then multiplies the two elements it was given, which
  \<open>np.dot\<close> refuses; an event of four elements is refused the same way. On the padded,
  and on the truncated, event the product exists. (\<open>add_event\<close>, \<open>fuzzy_probability\<close>
  and \<open>bernoulli\<close> work on the normalized array: see \<open>fuzzy_probability_result\<close> and
  C5, which put no condition on the event's length.)
\<close>

theorem probability_rejects_other_lengths:
  "fst (probability doc_calc [2 / 10, 5 / 10]) = Inl LengthMismatch
   \<and> fst (probability doc_calc [2 / 10, 5 / 10, 3 / 10, 1]) = Inl LengthMismatch
   \<and> normalized_event doc_calc [2 / 10, 5 / 10] = [2 / 10, 5 / 10, 0]
   \<and> fst (probability doc_calc (normalized_event doc_calc [2 / 10, 5 / 10])) = Inr (26 / 100)
   \<and> fst (probability doc_calc (normalized_event doc_calc [2 / 10, 5 / 10, 3 / 10, 1]))
       = Inr (35 / 100)"
  by (simp add: probability_def np_dot_def normalized_event_def doc_calc_def)





section \<open>Bernoulli trials\<close>










section \<open>Construction\<close>

lemma sum_list_divide: "sum_list (map (\<lambda>p. p / t) ps) = sum_list ps / (t::real)"
  by (induction ps) (simp_all add: add_divide_distrib)

lemma not_isclose_zero: "\<not> np_isclose t 0 \<Longrightarrow> t \<noteq> 0"
  by (auto simp: np_isclose_def)

text \<open>
  C6. For a universe of distinct elements and a distribution with every value in
  \<open>[0, 1]\<close> whose sum is neither close to 0 nor close to 1 (\<open>np.isclose\<close>):
  the constructor with \<open>normalize=False\<close> raises "Sum of all probabilities values should
  be equal to 1"; with \<open>normalize=True\<close> it returns a calculator that stores every
  value divided by the sum, and the stored values sum to 1 (in exact arithmetic).
\<close>

theorem init_unnormalized:
  assumes "distinct universe'"
    and "\<forall>p\<in>set distribution. 0 \<le> p \<and> p \<le> 1"
    and "\<not> np_isclose (sum_list distribution) 0"
    and "\<not> np_isclose (sum_list distribution) 1"
  shows "init universe' distribution False = Inl UnnormalizedDistribution
         \<and> (\<exists>c. init universe' distribution True = Inr c
                \<and> probabilities c = map (\<lambda>p. p / sum_list distribution) distribution
                \<and> universe c = universe' \<and> events c = []
                \<and> sum_list (probabilities c) = 1)"
proof -
  have u: "universe_diverse universe'"
    using assms(1) by (simp add: universe_diverse_def np_unique_def distinct_remdups_id)
  have v: "probabilities_valid distribution"
    using assms(2,3) by (auto simp: probabilities_valid_def list_all_iff)
  have n: "\<not> probabilities_normalized distribution"
    using assms(4) by (simp add: probabilities_normalized_def)
  have "sum_list distribution \<noteq> 0"
    using assms(3) by (rule not_isclose_zero)
  then have "sum_list (normalize_probabilities distribution) = 1"
    by (simp add: normalize_probabilities_def sum_list_divide)
  with u v n show ?thesis
    by (simp add: init_def normalize_probabilities_def)
qed

theorem init_unnormalized_witness:
  "init [0, 1, 2] [4 / 10, 4 / 10, 4 / 10] False = Inl UnnormalizedDistribution
   \<and> (\<exists>c. init [0, 1, 2] [4 / 10, 4 / 10, 4 / 10] True = Inr c
          \<and> probabilities c = [1 / 3, 1 / 3, 1 / 3]
          \<and> sum_list (probabilities c) = 1)"
proof -
  have "init [0, 1, 2] [4 / 10, 4 / 10, 4 / 10] False = Inl UnnormalizedDistribution
        \<and> (\<exists>c. init [0, 1, 2] [4 / 10, 4 / 10, 4 / 10] True = Inr c
               \<and> probabilities c = map (\<lambda>p. p / sum_list [4 / 10, 4 / 10, 4 / 10])
                                       [4 / 10, 4 / 10, 4 / 10]
               \<and> universe c = [0, 1, 2] \<and> events c = []
               \<and> sum_list (probabilities c) = 1)"
    by (rule init_unnormalized) (simp_all add: np_isclose_def)
  then show ?thesis by auto
qed

section \<open>Combining registered events\<close>

lemma py_index_error: "py_index xs i = Inl e \<Longrightarrow> e = IndexError"
  by (auto simp: py_index_def Let_def split: if_splits)

lemma py_index_below: "i < - int (length xs) \<Longrightarrow> py_index xs i = Inl IndexError"
  by (simp add: py_index_def Let_def)

lemma py_index_in_range:
  "- int (length xs) \<le> i \<Longrightarrow> i < int (length xs) \<Longrightarrow>
     py_index xs i = Inr (xs ! nat (if i < 0 then int (length xs) + i else i))"
  by (simp add: py_index_def Let_def)

lemma select_events_error: "select_events evs idxs = Inl e \<Longrightarrow> e = IndexError"
proof (induction idxs)
  case Nil
  then show ?case by simp
next
  case (Cons idx rest)
  then show ?case
    by (auto split: if_splits sum.splits dest: py_index_error)
qed

lemma select_events_below:
  "i \<in> set idxs \<Longrightarrow> i < - int (length evs) \<Longrightarrow> select_events evs idxs = Inl IndexError"
proof (induction idxs)
  case Nil
  then show ?case by simp
next
  case (Cons idx rest)
  show ?case
  proof (cases "idx = i")
    case True
    with Cons.prems show ?thesis by (simp add: py_index_below)
  next
    case False
    with Cons have "select_events evs rest = Inl IndexError" by simp
    then show ?thesis
      by (auto split: sum.splits dest: py_index_error)
  qed
qed

lemma select_events_in_range:
  "\<forall>i\<in>set idxs. - int (length evs) \<le> i \<Longrightarrow>
     select_events evs idxs
       = Inr (map (\<lambda>i. evs ! nat (if i < 0 then int (length evs) + i else i))
                (filter (\<lambda>i. i < int (length evs)) idxs))"
  by (induction idxs) (simp_all add: py_index_in_range)

lemma events_sum_no_index: "events_sum fuzzy_add self [] = (Inl EmptyIndexList, self)"
  by (simp add: events_sum_def)

lemma events_intersection_no_index:
  "events_intersection fuzzy_and self [] = (Inl EmptyIndexList, self)"
  by (simp add: events_intersection_def)

text \<open>
  C7. With one registered event, \<open>events_sum(5)\<close> and \<open>events_intersection(5)\<close> raise
  IndexError: the index 5 is skipped, nothing is left, and \<open>selected_events[0]\<close> reads
  an empty list. The index \<open>-2\<close> passes the guard \<open>idx < len(self._events)\<close> and raises
  IndexError inside the comprehension. Beside a valid index, 5 is skipped as the claim
  says.
\<close>

theorem events_sum_index_error:
  "fst (events_sum fuzzy_add doc_calc1 [5]) = Inl IndexError
   \<and> fst (events_intersection fuzzy_and doc_calc1 [5]) = Inl IndexError
   \<and> fst (events_sum fuzzy_add doc_calc1 [0, - 2]) = Inl IndexError
   \<and> fst (events_intersection fuzzy_and doc_calc1 [0, - 2]) = Inl IndexError
   \<and> fst (events_sum fuzzy_add doc_calc1 [0, 5]) = Inr [2 / 10, 5 / 10, 3 / 10]
   \<and> fst (events_intersection fuzzy_and doc_calc1 [5, 0]) = Inr [2 / 10, 5 / 10, 3 / 10]"
  by (simp add: events_sum_def events_intersection_def py_index_def doc_calc1_def doc_calc_def)

text \<open>
  C9. With \<open>k\<close> registered events, an index \<open>i\<close> with \<open>-k <= i <= -1\<close> is not filtered
  out: among indices that are all at least \<open>-k\<close> the selection keeps every index below
  \<open>k\<close>, a negative one standing for the event at position \<open>k + i\<close>, and such an index
  alone makes both operations return that event. Any index below \<open>-k\<close> among the
  arguments makes both operations raise IndexError.
\<close>

theorem negative_indices:
  "((\<forall>i\<in>set idxs. - int (length (events self)) \<le> i) \<longrightarrow>
      select_events (events self) idxs
        = Inr (map (\<lambda>i. events self ! nat (if i < 0 then int (length (events self)) + i else i))
                 (filter (\<lambda>i. i < int (length (events self))) idxs)))
   \<and> (- int (length (events self)) \<le> i \<and> i \<le> - 1 \<longrightarrow>
        fst (events_sum fuzzy_add self [i])
          = Inr (events self ! nat (int (length (events self)) + i))
        \<and> fst (events_intersection fuzzy_and self [i])
          = Inr (events self ! nat (int (length (events self)) + i)))
   \<and> (i \<in> set idxs \<and> i < - int (length (events self)) \<longrightarrow>
        fst (events_sum fuzzy_add self idxs) = Inl IndexError
        \<and> fst (events_intersection fuzzy_and self idxs) = Inl IndexError)"
proof (intro conjI impI)
  assume "\<forall>i\<in>set idxs. - int (length (events self)) \<le> i"
  then show "select_events (events self) idxs
        = Inr (map (\<lambda>i. events self ! nat (if i < 0 then int (length (events self)) + i else i))
                 (filter (\<lambda>i. i < int (length (events self))) idxs))"
    by (rule select_events_in_range)
next
  assume r: "- int (length (events self)) \<le> i \<and> i \<le> - 1"
  then have sel: "select_events (events self) [i]
                    = Inr [events self ! nat (int (length (events self)) + i)]"
    by (simp add: py_index_in_range)
  show "fst (events_sum fuzzy_add self [i])
          = Inr (events self ! nat (int (length (events self)) + i))"
    unfolding events_sum_def sel by (simp add: py_index_def)
  show "fst (events_intersection fuzzy_and self [i])
          = Inr (events self ! nat (int (length (events self)) + i))"
    unfolding events_intersection_def sel by (simp add: py_index_def)
next
  assume b: "i \<in> set idxs \<and> i < - int (length (events self))"
  then have sel: "select_events (events self) idxs = Inl IndexError"
    by (blast intro: select_events_below)
  from b have ne: "idxs \<noteq> []" by auto
  show "fst (events_sum fuzzy_add self idxs) = Inl IndexError"
    unfolding events_sum_def sel using ne by simp
  show "fst (events_intersection fuzzy_and self idxs) = Inl IndexError"
    unfolding events_intersection_def sel using ne by simp
qed

theorem negative_indices_witness:
  "\<forall>fuzzy_add fuzzy_and.
     select_events (events doc_calc1) [- 1, 0, 7]
       = Inr [[2 / 10, 5 / 10, 3 / 10], [2 / 10, 5 / 10, 3 / 10]]
     \<and> fst (events_sum fuzzy_add doc_calc1 [- 1]) = Inr [2 / 10, 5 / 10, 3 / 10]
     \<and> fst (events_intersection fuzzy_and doc_calc1 [- 1]) = Inr [2 / 10, 5 / 10, 3 / 10]
     \<and> fst (events_sum fuzzy_add doc_calc1 [0, - 2]) = Inl IndexError
     \<and> fst (events_intersection fuzzy_and doc_calc1 [0, - 2]) = Inl IndexError"
proof (intro allI)
  fix fuzzy_add fuzzy_and :: fuzzy_op
  show "select_events (events doc_calc1) [- 1, 0, 7]
       = Inr [[2 / 10, 5 / 10, 3 / 10], [2 / 10, 5 / 10, 3 / 10]]
     \<and> fst (events_sum fuzzy_add doc_calc1 [- 1]) = Inr [2 / 10, 5 / 10, 3 / 10]
     \<and> fst (events_intersection fuzzy_and doc_calc1 [- 1]) = Inr [2 / 10, 5 / 10, 3 / 10]
     \<and> fst (events_sum fuzzy_add doc_calc1 [0, - 2]) = Inl IndexError
     \<and> fst (events_intersection fuzzy_and doc_calc1 [0, - 2]) = Inl IndexError"
    using negative_indices [of "[- 1, 0, 7]" doc_calc1 "- 1" fuzzy_add fuzzy_and]
      negative_indices [of "[0, - 2]" doc_calc1 "- 2" fuzzy_add fuzzy_and]
    by (simp add: doc_calc1_def doc_calc_def)
qed

section \<open>The state after a call\<close>

text \<open>
  C8. \<open>probability\<close>, \<open>fuzzy_probability\<close>, \<open>bernoulli\<close>, \<open>events_sum\<close> and
  \<open>events_intersection\<close> leave the calculator as it was, whether they return or raise;
  \<open>add_event\<close> appends the length-normalized event to the registered events and
  changes nothing else.
\<close>

theorem only_add_event_changes_state:
  "snd (probability self event) = self
   \<and> snd (fuzzy_probability self event) = self
   \<and> snd (bernoulli dt self event success failure) = self
   \<and> snd (events_sum fuzzy_add self idxs) = self
   \<and> snd (events_intersection fuzzy_and self idxs) = self
   \<and> snd (add_event self event)
       = self\<lparr>events := events self @ [normalized_event self event]\<rparr>
   \<and> snd (add_event self event) \<noteq> self"
proof (intro conjI)
  show "snd (probability self event) = self"
    by (simp add: probability_def)
  show "snd (fuzzy_probability self event) = self"
    by (simp add: fuzzy_probability_def Let_def)
  show "snd (bernoulli dt self event success failure) = self"
    by (simp add: bernoulli_def probability_def Let_def split: sum.splits)
  show "snd (events_sum fuzzy_add self idxs) = self"
    by (simp add: events_sum_def split: sum.splits)
  show "snd (events_intersection fuzzy_and self idxs) = self"
    by (simp add: events_intersection_def split: sum.splits)
  show a: "snd (add_event self event)
       = self\<lparr>events := events self @ [normalized_event self event]\<rparr>"
    by (simp add: add_event_def Let_def)
  have "events (snd (add_event self event)) \<noteq> events self"
    unfolding a by simp
  then show "snd (add_event self event) \<noteq> self"
    by auto
qed

section \<open>Fuzzy probability\<close>


lemma takeWhile_zero_none: "(0::real) \<notin> set xs \<Longrightarrow> takeWhile (\<lambda>i. i = 0) xs = []"
  by (cases xs) auto

lemma takeWhile_zero_append:
  "(0::real) \<notin> set xs \<Longrightarrow> xs \<noteq> [] \<Longrightarrow> takeWhile (\<lambda>i. i = 0) (xs @ ys) = []"
  by (cases xs) auto

lemma trim_no_zero: "0 \<notin> set xs \<Longrightarrow> np_trim_zeros xs = xs"
  by (simp add: np_trim_zeros_def takeWhile_zero_none)

lemma trim_zero_first:
  assumes "0 \<notin> set ys"
  shows "np_trim_zeros (0 # ys) = ys"
proof (cases "ys = []")
  case True
  then show ?thesis by (simp add: np_trim_zeros_def)
next
  case False
  with assms have "takeWhile (\<lambda>i. i = 0) (rev ys @ [0]) = []"
    by (simp add: takeWhile_zero_append)
  with assms show ?thesis
    by (simp add: np_trim_zeros_def takeWhile_zero_none)
qed

lemma trim_zero_last:
  assumes "0 \<notin> set ys"
  shows "np_trim_zeros (ys @ [0]) = ys"
proof (cases "ys = []")
  case True
  then show ?thesis by (simp add: np_trim_zeros_def)
next
  case False
  with assms have "takeWhile (\<lambda>i. i = 0) (ys @ [0]) = []"
    by (simp add: takeWhile_zero_append)
  with assms show ?thesis
    by (simp add: np_trim_zeros_def takeWhile_zero_none)
qed

lemma strict_sorted_zero_first:
  assumes "sorted_wrt (<) xs" "(0::real) \<in> set xs" "\<forall>x\<in>set xs. 0 \<le> x"
  shows "\<exists>ys. xs = 0 # ys \<and> (\<forall>y\<in>set ys. 0 < y)"
proof (cases xs)
  case Nil
  with assms show ?thesis by simp
next
  case (Cons h ys)
  with assms have "h = 0" by fastforce
  with Cons assms show ?thesis by auto
qed

lemma strict_sorted_zero_last:
  assumes "sorted_wrt (<) xs" "(0::real) \<in> set xs" "\<forall>x\<in>set xs. x \<le> 0"
  shows "\<exists>ys. xs = ys @ [0] \<and> (\<forall>y\<in>set ys. y < 0)"
proof (cases xs rule: rev_cases)
  case Nil
  with assms show ?thesis by simp
next
  case (snoc ys l)
  with assms have "l = 0" by (fastforce simp: sorted_wrt_append)
  with snoc assms show ?thesis by (auto simp: sorted_wrt_append)
qed

lemma trim_zeros_strict_sorted:
  assumes s: "sorted_wrt (<) xs"
    and h: "\<not> (0 \<in> set xs \<and> (\<exists>x\<in>set xs. x < 0) \<and> (\<exists>x\<in>set xs. 0 < x))"
  shows "np_trim_zeros xs = filter (\<lambda>x. x \<noteq> 0) xs"
proof (cases "0 \<in> set xs")
  case False
  then have "filter (\<lambda>x. x \<noteq> 0) xs = xs" by (auto simp: filter_id_conv)
  with False show ?thesis by (simp add: trim_no_zero)
next
  case True
  with h consider "\<forall>x\<in>set xs. 0 \<le> x" | "\<forall>x\<in>set xs. x \<le> 0"
    by (meson not_le)
  then show ?thesis
  proof cases
    case 1
    with s True obtain ys where ys: "xs = 0 # ys" "\<forall>y\<in>set ys. 0 < y"
      using strict_sorted_zero_first by blast
    then have nz: "0 \<notin> set ys" by auto
    then have "filter (\<lambda>x. x \<noteq> 0) ys = ys" by (auto simp: filter_id_conv)
    with ys nz show ?thesis by (simp add: trim_zero_first)
  next
    case 2
    with s True obtain ys where ys: "xs = ys @ [0]" "\<forall>y\<in>set ys. y < 0"
      using strict_sorted_zero_last by blast
    then have nz: "0 \<notin> set ys" by auto
    then have "filter (\<lambda>x. x \<noteq> 0) ys = ys" by (auto simp: filter_id_conv)
    with ys nz show ?thesis by (simp add: trim_zero_last)
  qed
qed

lemma strict_sorted_trim: "sorted_wrt (<) xs \<Longrightarrow> sorted_wrt (<) (np_trim_zeros xs)"
  by (simp add: np_trim_zeros_def Let_def sorted_wrt_drop sorted_wrt_take)

lemma strict_sorted_unique: "sorted_wrt (<) (np_unique xs)"
  by (simp add: np_unique_def strict_sorted_iff)

lemma set_unique: "set (np_unique xs) = set xs"
  by (simp add: np_unique_def)

lemma np_nonzero_ge:
  "np_nonzero (map (\<lambda>m. a \<le> m) n) = filter (\<lambda>i. a \<le> n ! i) [0..<length n]"
  by (auto simp: np_nonzero_def intro: filter_cong)

lemma alpha_probs_ok:
  "length normalized \<le> length ps \<Longrightarrow>
   alpha_probs ps normalized alphas =
     Inr (map (\<lambda>a. sum_list (map (\<lambda>i. ps ! i)
                     (filter (\<lambda>i. a \<le> normalized ! i) [0..<length normalized]))) alphas)"
  by (induction alphas) (auto simp: np_nonzero_ge np_take_def list_all_iff Let_def)

lemma sum_list_filter_upt:
  "sum_list (map f (filter P [0..<n])) = (\<Sum>i | i < n \<and> P i. f i)"
proof -
  have "sum_list (map f (filter P [0..<n])) = sum f (set (filter P [0..<n]))"
    by (rule sum_list_distinct_conv_sum_set) simp
  also have "set (filter P [0..<n]) = {i. i < n \<and> P i}" by auto
  finally show ?thesis .
qed


lemma np_take_cut:
  "np_take ps (np_nonzero (map (\<lambda>m. a \<le> m) n))
     = (if \<forall>i<length n. a \<le> n ! i \<longrightarrow> i < length ps
        then Inr (map (\<lambda>i. ps ! i) (filter (\<lambda>i. a \<le> n ! i) [0..<length n]))
        else Inl IndexError)"
  by (auto simp: np_take_def np_nonzero_ge list_all_iff)

lemma alpha_probs_iff:
  "alpha_probs ps n alphas
     = (if \<forall>a\<in>set alphas. \<forall>i<length n. a \<le> n ! i \<longrightarrow> i < length ps
        then Inr (map (\<lambda>a. sum_list (map (\<lambda>i. ps ! i)
                       (filter (\<lambda>i. a \<le> n ! i) [0..<length n]))) alphas)
        else Inl IndexError)"
proof (induction alphas)
  case Nil
  then show ?case by simp
next
  case (Cons a alphas)
  show ?case
  proof (cases "\<forall>i<length n. a \<le> n ! i \<longrightarrow> i < length ps")
    case True
    then show ?thesis
      by (simp add: Let_def np_take_cut Cons.IH)
  next
    case False
    then show ?thesis
      by (auto simp: Let_def np_take_cut)
  qed
qed

lemma sum_list_filter_subset:
  "(\<forall>x\<in>set xs. Q x \<longrightarrow> 0 \<le> f x) \<Longrightarrow> (\<forall>x\<in>set xs. P x \<longrightarrow> Q x) \<Longrightarrow>
     sum_list (map f (filter P xs)) \<le> (sum_list (map f (filter Q xs)) :: real)"
  by (induction xs) auto

lemma fuzzy_probability_result:
  assumes "length (universe self) \<le> length (probabilities self)"
  shows "fst (fuzzy_probability self event)
           = Inr (map (\<lambda>a. \<Sum>i | i < length (universe self) \<and> a \<le> normalized_event self event ! i.
                              probabilities self ! i)
                    (np_trim_zeros (np_unique (normalized_event self event))),
                  np_trim_zeros (np_unique (normalized_event self event)))"
  using assms
  by (simp add: fuzzy_probability_def Let_def alpha_probs_ok length_normalized_event
      sum_list_filter_upt)

lemma init_nonneg:
  assumes "init u d f = Inr c"
  shows "\<forall>p\<in>set (probabilities c). 0 \<le> p"
proof -
  from assms have v: "probabilities_valid d"
    by (auto simp: init_def split: if_splits)
  then have nn: "\<forall>p\<in>set d. 0 \<le> p"
    by (simp add: probabilities_valid_def list_all_iff)
  then have "0 \<le> sum_list d" by (simp add: sum_list_nonneg)
  with nn have "\<forall>p\<in>set (normalize_probabilities d). 0 \<le> p"
    by (auto simp: normalize_probabilities_def)
  with nn assms show ?thesis
    by (auto simp: init_def split: if_splits)
qed

text \<open>
  C3, as the code has it. For an event whose length-normalized membership does not hold
  zero together with both a negative and a positive value (so for every membership in
  \<open>[0, 1]\<close>), and when the distribution has an entry at every universe position whose
  normalized membership is at least some non-zero membership value (so whenever the
  distribution is at least as long as the universe), \<open>fuzzy_probability\<close> returns two
  sequences of the same length: the alpha levels are the distinct non-zero values of the
  normalized membership in strictly ascending order, the probability at position \<open>j\<close>
  is the sum of the distribution over the universe positions whose normalized
  membership is at least the \<open>j\<close>-th alpha, and an all-zero membership gives two empty
  sequences.
\<close>

theorem fuzzy_probability_alpha_cuts:
  assumes cover: "\<forall>m\<in>set (normalized_event self event). m \<noteq> 0 \<longrightarrow>
                    (\<forall>i<length (universe self). m \<le> normalized_event self event ! i
                        \<longrightarrow> i < length (probabilities self))"
    and mid: "\<not> (0 \<in> set (normalized_event self event)
                \<and> (\<exists>m\<in>set (normalized_event self event). m < 0)
                \<and> (\<exists>m\<in>set (normalized_event self event). 0 < m))"
  shows "\<exists>probs alphas.
           fst (fuzzy_probability self event) = Inr (probs, alphas)
           \<and> length probs = length alphas
           \<and> sorted_wrt (<) alphas
           \<and> set alphas = {m \<in> set (normalized_event self event). m \<noteq> 0}
           \<and> (\<forall>j<length alphas.
                 probs ! j = (\<Sum>i | i < length (universe self)
                                     \<and> alphas ! j \<le> normalized_event self event ! i.
                                probabilities self ! i))
           \<and> ((\<forall>m\<in>set (normalized_event self event). m = 0) \<longrightarrow> probs = [] \<and> alphas = [])"
proof -
  let ?n = "normalized_event self event"
  let ?alphas = "np_trim_zeros (np_unique ?n)"
  let ?probs = "map (\<lambda>a. \<Sum>i | i < length (universe self) \<and> a \<le> ?n ! i. probabilities self ! i)
                  ?alphas"
  have t: "?alphas = filter (\<lambda>x. x \<noteq> 0) (np_unique ?n)"
    using mid by (intro trim_zeros_strict_sorted strict_sorted_unique) (simp add: set_unique)
  have e: "set ?alphas = {m \<in> set ?n. m \<noteq> 0}"
    unfolding t by (auto simp: set_unique)
  have ok: "\<forall>a\<in>set ?alphas. \<forall>i<length ?n. a \<le> ?n ! i \<longrightarrow> i < length (probabilities self)"
    unfolding e using cover by (auto simp: length_normalized_event)
  have r: "fst (fuzzy_probability self event) = Inr (?probs, ?alphas)"
    using ok
    by (simp add: fuzzy_probability_def Let_def alpha_probs_iff length_normalized_event
        sum_list_filter_upt)
  have s: "sorted_wrt (<) ?alphas"
    by (intro strict_sorted_trim strict_sorted_unique)
  have z: "(\<forall>m\<in>set ?n. m = 0) \<longrightarrow> ?alphas = []"
  proof
    assume "\<forall>m\<in>set ?n. m = 0"
    with e have "set ?alphas = {}" by auto
    then show "?alphas = []" by simp
  qed
  from r s e z show ?thesis by simp
qed

theorem fuzzy_probability_alpha_cuts_witness:
  "\<exists>probs alphas.
     fst (fuzzy_probability short_calc [1, 1 / 2, 0, 7]) = Inr (probs, alphas)
     \<and> normalized_event short_calc [1, 1 / 2, 0, 7] = [1, 1 / 2, 0]
     \<and> alphas = [1 / 2, 1] \<and> probs = [1, 1 / 2]
     \<and> length probs = length alphas
     \<and> sorted_wrt (<) alphas
     \<and> set alphas = {m \<in> set (normalized_event short_calc [1, 1 / 2, 0, 7]). m \<noteq> 0}
     \<and> probs ! 1 = (\<Sum>i | i < length (universe short_calc)
                            \<and> alphas ! 1 \<le> normalized_event short_calc [1, 1 / 2, 0, 7] ! i.
                       probabilities short_calc ! i)"
proof -
  have n: "normalized_event short_calc [1, 1 / 2, 0, 7] = [1, 1 / 2, 0]"
    by (simp add: normalized_event_def short_calc_def)
  have u: "length (universe short_calc) = Suc (Suc (Suc 0))"
    and d: "length (probabilities short_calc) = Suc (Suc 0)"
    by (simp_all add: short_calc_def)
  have cover: "\<forall>m\<in>set (normalized_event short_calc [1, 1 / 2, 0, 7]). m \<noteq> 0 \<longrightarrow>
                 (\<forall>i<length (universe short_calc).
                     m \<le> normalized_event short_calc [1, 1 / 2, 0, 7] ! i
                     \<longrightarrow> i < length (probabilities short_calc))"
    unfolding n u d by (simp add: less_Suc_eq)
  have mid: "\<not> (0 \<in> set (normalized_event short_calc [1, 1 / 2, 0, 7])
               \<and> (\<exists>m\<in>set (normalized_event short_calc [1, 1 / 2, 0, 7]). m < 0)
               \<and> (\<exists>m\<in>set (normalized_event short_calc [1, 1 / 2, 0, 7]). 0 < m))"
    unfolding n by simp
  have ev: "fst (fuzzy_probability short_calc [1, 1 / 2, 0, 7])
              = Inr ([1, 1 / 2], [1 / 2, 1])"
    by (simp add: fuzzy_probability_def normalized_event_def np_unique_def np_trim_zeros_def
        np_nonzero_def np_take_def short_calc_def upt_rec)
  from fuzzy_probability_alpha_cuts [OF cover mid]
  obtain probs alphas where
    r: "fst (fuzzy_probability short_calc [1, 1 / 2, 0, 7]) = Inr (probs, alphas)" and
    l: "length probs = length alphas" and
    s: "sorted_wrt (<) alphas" and
    e: "set alphas = {m \<in> set (normalized_event short_calc [1, 1 / 2, 0, 7]). m \<noteq> 0}" and
    c: "\<forall>j<length alphas.
          probs ! j = (\<Sum>i | i < length (universe short_calc)
                              \<and> alphas ! j \<le> normalized_event short_calc [1, 1 / 2, 0, 7] ! i.
                         probabilities short_calc ! i)"
    by blast
  from r ev have a: "alphas = [1 / 2, 1]" and p: "probs = [1, 1 / 2]"
    by simp_all
  from a have "1 < length alphas" by simp
  with c have c1: "probs ! 1 = (\<Sum>i | i < length (universe short_calc)
                              \<and> alphas ! 1 \<le> normalized_event short_calc [1, 1 / 2, 0, 7] ! i.
                         probabilities short_calc ! i)"
    by blast
  from r n a p l s e c1 show ?thesis by blast
qed

text \<open>
  C3, as the claim states it, fails two ways. On the membership \<open>[-1, 0, 1]\<close>
  \<open>np.unique\<close> gives \<open>[-1, 0, 1]\<close>, \<open>np.trim_zeros\<close> trims the two ends only, and zero
  is returned as an alpha level. On the calculator with the distribution \<open>[0.5, 0.5]\<close>
  the membership \<open>[1, 1, 1]\<close> selects position 2, which the distribution does not have,
  and the call raises IndexError.
\<close>

theorem fuzzy_probability_counterexamples:
  "fst (fuzzy_probability doc_calc [- 1, 0, 1]) = Inr ([1, 7 / 10, 3 / 10], [- 1, 0, 1])
   \<and> fst (fuzzy_probability short_calc [1, 1, 1]) = Inl IndexError"
  by (simp add: fuzzy_probability_def normalized_event_def np_unique_def np_trim_zeros_def
      np_nonzero_def np_take_def doc_calc_def short_calc_def upt_rec)

text \<open>
  C4. Whatever the event, when \<open>fuzzy_probability\<close> returns on a calculator whose
  distribution has no negative value (what the constructor accepts or produces), the
  two sequences have the same length, the alpha levels are strictly ascending and each
  probability is at least the probability of the next-higher alpha.
\<close>

theorem fuzzy_probability_monotone:
  assumes nonneg: "\<forall>p\<in>set (probabilities self). 0 \<le> p"
    and r: "fst (fuzzy_probability self event) = Inr (probs, alphas)"
  shows "length probs = length alphas
         \<and> sorted_wrt (<) alphas
         \<and> (\<forall>j. Suc j < length probs \<longrightarrow> probs ! Suc j \<le> probs ! j)"
proof -
  let ?n = "normalized_event self event"
  let ?ps = "probabilities self"
  let ?g = "\<lambda>a. sum_list (map (\<lambda>i. ?ps ! i) (filter (\<lambda>i. a \<le> ?n ! i) [0..<length ?n]))"
  from r have a: "alphas = np_trim_zeros (np_unique ?n)"
    and ap: "alpha_probs ?ps ?n alphas = Inr probs"
    by (auto simp: fuzzy_probability_def Let_def split: sum.splits)
  from ap have ok: "\<forall>a\<in>set alphas. \<forall>i<length ?n. a \<le> ?n ! i \<longrightarrow> i < length ?ps"
    and p: "probs = map ?g alphas"
    by (auto simp: alpha_probs_iff split: if_splits)
  have s: "sorted_wrt (<) alphas"
    unfolding a by (intro strict_sorted_trim strict_sorted_unique)
  have "probs ! Suc j \<le> probs ! j" if j: "Suc j < length probs" for j
  proof -
    from j p have jl: "Suc j < length alphas" by simp
    with s have lt: "alphas ! j < alphas ! Suc j"
      by (simp add: sorted_wrt_iff_nth_less)
    from jl have mem: "alphas ! j \<in> set alphas" by simp
    have "?g (alphas ! Suc j) \<le> ?g (alphas ! j)"
    proof (rule sum_list_filter_subset)
      show "\<forall>i\<in>set [0..<length ?n]. alphas ! j \<le> ?n ! i \<longrightarrow> 0 \<le> ?ps ! i"
        using ok mem nonneg by auto
      show "\<forall>i\<in>set [0..<length ?n]. alphas ! Suc j \<le> ?n ! i \<longrightarrow> alphas ! j \<le> ?n ! i"
        using lt by auto
    qed
    with jl show ?thesis by (simp add: p)
  qed
  with s p show ?thesis by simp
qed

theorem fuzzy_probability_monotone_witness:
  "fst (fuzzy_probability doc_calc [2 / 10, 5 / 10, 3 / 10])
     = Inr ([1, 7 / 10, 4 / 10], [2 / 10, 3 / 10, 5 / 10])
   \<and> sorted_wrt (<) [2 / 10, 3 / 10, 5 / 10 :: real]
   \<and> [1, 7 / 10, 4 / 10 :: real] ! Suc 0 \<le> [1, 7 / 10, 4 / 10] ! 0
   \<and> [1, 7 / 10, 4 / 10 :: real] ! Suc (Suc 0) \<le> [1, 7 / 10, 4 / 10] ! Suc 0"
proof -
  have nonneg: "\<forall>p\<in>set (probabilities doc_calc). 0 \<le> p"
    using init_doc_calc by (rule init_nonneg)
  have ev: "fst (fuzzy_probability doc_calc [2 / 10, 5 / 10, 3 / 10])
              = Inr ([1, 7 / 10, 4 / 10], [2 / 10, 3 / 10, 5 / 10])"
    by (simp add: fuzzy_probability_def normalized_event_def np_unique_def np_trim_zeros_def
        np_nonzero_def np_take_def doc_calc_def upt_rec)
  from fuzzy_probability_monotone [OF nonneg ev]
  have s: "sorted_wrt (<) [2 / 10, 3 / 10, 5 / 10 :: real]"
    and m: "\<forall>j. Suc j < length [1, 7 / 10, 4 / 10 :: real]
               \<longrightarrow> [1, 7 / 10, 4 / 10 :: real] ! Suc j \<le> [1, 7 / 10, 4 / 10] ! j"
    by blast+
  have "Suc 0 < length [1, 7 / 10, 4 / 10 :: real]"
    and "Suc (Suc 0) < length [1, 7 / 10, 4 / 10 :: real]"
    by simp_all
  with m have "[1, 7 / 10, 4 / 10 :: real] ! Suc 0 \<le> [1, 7 / 10, 4 / 10] ! 0"
    and "[1, 7 / 10, 4 / 10 :: real] ! Suc (Suc 0) \<le> [1, 7 / 10, 4 / 10] ! Suc 0"
    by blast+
  with ev s show ?thesis by blast
qed

end
